theory Spec2Isabelle
  imports Complex_Main "HOL-Library.Word"
begin

section \<open>CTAD.cpp: the traced cell and the container\<close>

subsection \<open>Types and values\<close>

text \<open>
  The element types the program instantiates its templates with: \<open>int\<close>, \<open>double\<close> and
  \<open>TypedClass<T>\<close>. A value carries its static type: an \<open>int\<close> is a 32-bit word, a
  \<open>double\<close> is modelled by the real number it denotes (the program does no floating
  arithmetic; the only conversion used, from a 32-bit \<open>int\<close>, is exact), \<open>Indet T\<close> is
  the indeterminate value of a default-initialised scalar member (a copy of it is
  indeterminate again), and a \<open>TypedClass<T>\<close> object is its single member \<open>val\<close>.
\<close>

datatype ctype = TInt | TDouble | TTypedClass ctype

datatype 'a TypedClass = TypedClass (val: 'a)

datatype cval = IntV "32 word" | DoubleV real | Indet ctype | CellV "cval TypedClass"

fun typeOf :: "cval \<Rightarrow> ctype" where
  "typeOf (IntV n) = TInt"
| "typeOf (DoubleV d) = TDouble"
| "typeOf (Indet T) = T"
| "typeOf (CellV (TypedClass v)) = TTypedClass (typeOf v)"

fun scalar :: "ctype \<Rightarrow> bool" where
  "scalar TInt = True"
| "scalar TDouble = True"
| "scalar (TTypedClass T) = False"

fun is_cell :: "cval \<Rightarrow> bool" where
  "is_cell (CellV c) = True"
| "is_cell v = False"

subsection \<open>Standard output as a list of events\<close>

text \<open>
  Every line the constructors write to \<open>std::cout\<close> is one event, appended at the end
  of the output. \<open>DefaultCtor T\<close>, \<open>ParamCtor T\<close> and \<open>CopyCtor T v\<close> are the three lines
  of \<open>TypedClass<T>\<close> (lines 23, 29 and 37; only the copy constructor prints the value);
  \<open>UsedInitList T\<close> is the line of \<open>DynamicArray<T>\<close>'s initializer-list constructor
  (line 60). The trace log of cell constructions is the sub-list of the first three.
\<close>

datatype event = DefaultCtor ctype | ParamCtor ctype | CopyCtor ctype cval | UsedInitList ctype

datatype kind = Default | ValueInit | Copy

fun kind_of :: "event \<Rightarrow> kind option" where
  "kind_of (DefaultCtor T) = Some Default"
| "kind_of (ParamCtor T) = Some ValueInit"
| "kind_of (CopyCtor T v) = Some Copy"
| "kind_of (UsedInitList T) = None"

fun type_tag :: "event \<Rightarrow> ctype" where
  "type_tag (DefaultCtor T) = TTypedClass T"
| "type_tag (ParamCtor T) = TTypedClass T"
| "type_tag (CopyCtor T v) = TTypedClass T"
| "type_tag (UsedInitList T) = T"

definition cell_events :: "event list \<Rightarrow> event list" where
  "cell_events out = filter (\<lambda>e. kind_of e \<noteq> None) out"


subsection \<open>TypedClass\<close>

text \<open>
  Copy-constructing a value of any element type. A scalar is copied silently. The copy
  constructor of \<open>TypedClass<T>\<close> (line 35) first copies the member (\<open>val(obj.val)\<close>), then
  prints its line with the new member's value.
\<close>

fun copy_construct :: "cval \<Rightarrow> event list \<Rightarrow> cval \<times> event list" where
  "copy_construct (CellV (TypedClass x)) out =
     (case copy_construct x out of
        (v, out') \<Rightarrow> (CellV (TypedClass v), out' @ [CopyCtor (typeOf x) v]))"
| "copy_construct v out = (v, out)"

definition TypedClass_copy :: "cval TypedClass \<Rightarrow> event list \<Rightarrow> cval TypedClass \<times> event list" where
  "TypedClass_copy obj out =
     (case copy_construct (val obj) out of
        (v, out') \<Rightarrow> (TypedClass v, out' @ [CopyCtor (typeOf (val obj)) v]))"

text \<open>\<open>TypedClass(const T &x) : val(x)\<close> (line 27): copy the argument into the member, print.\<close>

definition TypedClass_param :: "cval \<Rightarrow> event list \<Rightarrow> cval TypedClass \<times> event list" where
  "TypedClass_param x out =
     (case copy_construct x out of
        (v, out') \<Rightarrow> (TypedClass v, out' @ [ParamCtor (typeOf x)]))"

text \<open>
  Default initialisation of a \<open>T\<close>: a scalar is left indeterminate; \<open>TypedClass()\<close>
  (line 21) default-initialises its member and prints.
\<close>

fun default_init :: "ctype \<Rightarrow> event list \<Rightarrow> cval \<times> event list" where
  "default_init (TTypedClass T) out =
     (case default_init T out of
        (v, out') \<Rightarrow> (CellV (TypedClass v), out' @ [DefaultCtor T]))"
| "default_init T out = (Indet T, out)"

definition TypedClass_default :: "ctype \<Rightarrow> event list \<Rightarrow> cval TypedClass \<times> event list" where
  "TypedClass_default T out =
     (case default_init T out of
        (v, out') \<Rightarrow> (TypedClass v, out' @ [DefaultCtor T]))"

text \<open>
  \<open>T{}\<close>: a scalar is zero-initialised; \<open>TypedClass<T>\<close> has a user-provided default
  constructor, which is called.
\<close>

fun value_init :: "ctype \<Rightarrow> event list \<Rightarrow> cval \<times> event list" where
  "value_init TInt out = (IntV 0, out)"
| "value_init TDouble out = (DoubleV 0, out)"
| "value_init (TTypedClass T) out =
     (case TypedClass_default T out of (c, out') \<Rightarrow> (CellV c, out'))"

text \<open>\<open>T getData() const { return val; }\<close> (line 43): the result is a copy of the member.\<close>

definition getData :: "cval TypedClass \<Rightarrow> event list \<Rightarrow> cval \<times> event list" where
  "getData c out = copy_construct (val c) out"

subsection \<open>std::vector as used by DynamicArray\<close>

text \<open>
  \<open>std::vector<T>(n, v)\<close> copy-constructs \<open>n\<close> elements from \<open>v\<close>, in order, and
  \<open>std::vector<T>(init)\<close> copy-constructs one element from each element of the list, in
  order. Exhaustion of storage (\<open>std::length_error\<close>, \<open>std::bad_alloc\<close>) is outside the
  model.
\<close>

fun vector_fill :: "nat \<Rightarrow> cval \<Rightarrow> event list \<Rightarrow> cval list \<times> event list" where
  "vector_fill 0 v out = ([], out)"
| "vector_fill (Suc n) v out =
     (case copy_construct v out of
        (c, out1) \<Rightarrow> (case vector_fill n v out1 of (cs, out2) \<Rightarrow> (c # cs, out2)))"

fun vector_copy :: "cval list \<Rightarrow> event list \<Rightarrow> cval list \<times> event list" where
  "vector_copy [] out = ([], out)"
| "vector_copy (x # xs) out =
     (case copy_construct x out of
        (c, out1) \<Rightarrow> (case vector_copy xs out1 of (cs, out2) \<Rightarrow> (c # cs, out2)))"

subsection \<open>DynamicArray\<close>

record DynamicArray =
  elemT :: ctype
  arr :: "cval list"

text \<open>The four constructors of \<open>DynamicArray<T>\<close>, lines 52, 55, 58 and 66.\<close>

definition DynamicArray_default :: "ctype \<Rightarrow> event list \<Rightarrow> DynamicArray \<times> event list" where
  "DynamicArray_default T out = (\<lparr>elemT = T, arr = []\<rparr>, out)"

definition DynamicArray_sz :: "ctype \<Rightarrow> 64 word \<Rightarrow> event list \<Rightarrow> DynamicArray \<times> event list" where
  "DynamicArray_sz T sz out =
     (case value_init T out of
        (tmp, out1) \<Rightarrow>
          (case vector_fill (unat sz) tmp out1 of
             (xs, out2) \<Rightarrow> (\<lparr>elemT = T, arr = xs\<rparr>, out2)))"

definition DynamicArray_init :: "ctype \<Rightarrow> cval list \<Rightarrow> event list \<Rightarrow> DynamicArray \<times> event list" where
  "DynamicArray_init T init out =
     (case vector_copy init out of
        (xs, out1) \<Rightarrow> (\<lparr>elemT = T, arr = xs\<rparr>, out1 @ [UsedInitList T]))"

definition DynamicArray_fill :: "ctype \<Rightarrow> 64 word \<Rightarrow> cval \<Rightarrow> event list \<Rightarrow> DynamicArray \<times> event list" where
  "DynamicArray_fill T sz v out =
     (case vector_fill (unat sz) v out of
        (xs, out1) \<Rightarrow> (\<lparr>elemT = T, arr = xs\<rparr>, out1))"

subsection \<open>Class template argument deduction and overload resolution\<close>

text \<open>
  A declaration \<open>DynamicArray x{a1, ..., ak}\<close> or \<open>DynamicArray x(a1, ..., ak)\<close> names no
  element type: the compiler deduces it from the constructors (lines 52 to 66) and from
  the deduction guide \<open>DynamicArray(size_t, T) -> DynamicArray<TypedClass<T>>\<close> (line 78),
  then picks the constructor of the deduced class. The arguments are prvalues, as in
  \<open>main\<close>: an argument that already has the parameter's type initialises it without a copy.

  A program the compiler rejects is the error \<open>IllFormed\<close>. A call that needs a
  floating-to-integral conversion (a \<open>double\<close> count, a \<open>double\<close> stored as \<open>int\<close>)
  or reads an indeterminate value is \<open>NotModelled\<close>: nothing is stated about it.
\<close>

datatype error = IllFormed | NotModelled

datatype form = Paren | Braced

text \<open>
  Standard conversion of a scalar to the scalar type \<open>P\<close>; \<open>int\<close> to \<open>double\<close> is
  exact for every 32-bit value.
\<close>

definition standard_conversion :: "ctype \<Rightarrow> cval \<Rightarrow> error + cval" where
  "standard_conversion P v =
     (if typeOf v = P then Inr v
      else if scalar P \<and> scalar (typeOf v) then
        (case v of IntV n \<Rightarrow> Inr (DoubleV (real_of_int (sint n))) | _ \<Rightarrow> Inl NotModelled)
      else Inl IllFormed)"

text \<open>
  An implicit conversion from type \<open>A\<close> to the parameter type \<open>P\<close> exists when the types
  agree, when both are scalars, or when \<open>P\<close> is \<open>TypedClass<U>\<close> and the converting
  constructor (line 27) applies after at most a standard conversion to \<open>U\<close>. Two
  user-defined conversions are never chained.
\<close>

definition convertible :: "ctype \<Rightarrow> ctype \<Rightarrow> bool" where
  "convertible P A =
     (A = P \<or> (scalar A \<and> scalar P) \<or>
      (case P of TTypedClass U \<Rightarrow> A = U \<or> (scalar A \<and> scalar U) | _ \<Rightarrow> False))"

definition convert_to :: "ctype \<Rightarrow> cval \<Rightarrow> event list \<Rightarrow> error + (cval \<times> event list)" where
  "convert_to P a out =
     (if typeOf a = P then Inr (a, out)
      else case P of
        TTypedClass U \<Rightarrow>
          (if typeOf a = U \<or> (scalar (typeOf a) \<and> scalar U) then
             (case standard_conversion U a of
                Inl e \<Rightarrow> Inl e
              | Inr x \<Rightarrow> (case TypedClass_param x out of (c, out') \<Rightarrow> Inr (CellV c, out')))
           else Inl IllFormed)
      | _ \<Rightarrow>
          (case standard_conversion P a of
             Inl e \<Rightarrow> Inl e
           | Inr x \<Rightarrow> Inr (x, out)))"

text \<open>The elements of a braced list are converted left to right.\<close>

fun convert_all :: "ctype \<Rightarrow> cval list \<Rightarrow> event list \<Rightarrow> error + (cval list \<times> event list)" where
  "convert_all P [] out = Inr ([], out)"
| "convert_all P (a # as) out =
     (case convert_to P a out of
        Inl e \<Rightarrow> Inl e
      | Inr (x, out1) \<Rightarrow>
          (case convert_all P as out1 of
             Inl e \<Rightarrow> Inl e
           | Inr (xs, out2) \<Rightarrow> Inr (x # xs, out2)))"

text \<open>Conversion of a count argument to \<open>size_t\<close>: an \<open>int\<close> is sign-extended to 64 bits.\<close>

fun to_size_t :: "cval \<Rightarrow> error + 64 word" where
  "to_size_t (IntV n) = Inr (scast n)"
| "to_size_t (DoubleV d) = Inl NotModelled"
| "to_size_t (Indet T) = (if scalar T then Inl NotModelled else Inl IllFormed)"
| "to_size_t (CellV c) = Inl IllFormed"

text \<open>
  Deduction from the arguments taken one by one. No constructor with fewer than two
  parameters mentions \<open>T\<close> in a deducible place, and none has more than two. For two
  arguments \<open>(a, b)\<close> with \<open>a\<close> convertible to \<open>size_t\<close>, the constructor of line 66 would
  give \<open>DynamicArray<B>\<close> and the guide of line 78 gives \<open>DynamicArray<TypedClass<B>>\<close>;
  the conversions are the same and the user-written guide is preferred.
\<close>

fun deduce_call :: "ctype list \<Rightarrow> ctype option" where
  "deduce_call [a, b] = (if scalar a then Some (TTypedClass b) else None)"
| "deduce_call ts = None"

text \<open>
  For a braced list the initializer-list constructor (line 58) is tried first, with the
  whole list as its argument: \<open>T\<close> is deduced when the list is not empty and all its
  elements have one type. Otherwise the elements are taken one by one.
\<close>

definition deduce :: "form \<Rightarrow> ctype list \<Rightarrow> ctype option" where
  "deduce f ts =
     (if f = Braced \<and> ts \<noteq> [] \<and> list_all (\<lambda>t. t = hd ts) ts then Some (hd ts)
      else deduce_call ts)"

text \<open>
  The copy constructor of \<open>TypedClass<U>\<close> streams a \<open>U\<close> (line 39), so it can only be
  instantiated for a scalar \<open>U\<close>.
\<close>

fun copy_ok :: "ctype \<Rightarrow> bool" where
  "copy_ok (TTypedClass U) = scalar U"
| "copy_ok T = True"

text \<open>
  Choice of the constructor of \<open>DynamicArray<T>\<close> for arguments taken one by one:
  none (line 52), a count (line 55), a count and a value (line 66).
\<close>

fun initialize_call :: "ctype \<Rightarrow> cval list \<Rightarrow> event list \<Rightarrow> error + (DynamicArray \<times> event list)" where
  "initialize_call T [] out = Inr (DynamicArray_default T out)"
| "initialize_call T [a] out =
     (case to_size_t a of
        Inl e \<Rightarrow> Inl e
      | Inr sz \<Rightarrow> Inr (DynamicArray_sz T sz out))"
| "initialize_call T [a, b] out =
     (if convertible T (typeOf b) then
        (case to_size_t a of
           Inl e \<Rightarrow> Inl e
         | Inr sz \<Rightarrow>
             (case convert_to T b out of
                Inl e \<Rightarrow> Inl e
              | Inr (v, out1) \<Rightarrow> Inr (DynamicArray_fill T sz v out1)))
      else Inl IllFormed)"
| "initialize_call T as out = Inl IllFormed"

text \<open>
  List initialisation prefers the initializer-list constructor whenever every element
  of a non-empty list converts to \<open>T\<close>; the list's elements are built first, then the
  constructor copies them into the vector.
\<close>

definition initialize :: "ctype \<Rightarrow> form \<Rightarrow> cval list \<Rightarrow> event list \<Rightarrow> error + (DynamicArray \<times> event list)" where
  "initialize T f as out =
     (if f = Braced \<and> as \<noteq> [] \<and> list_all (\<lambda>a. convertible T (typeOf a)) as then
        (case convert_all T as out of
           Inl e \<Rightarrow> Inl e
         | Inr (init, out1) \<Rightarrow> Inr (DynamicArray_init T init out1))
      else initialize_call T as out)"

definition construct :: "form \<Rightarrow> cval list \<Rightarrow> event list \<Rightarrow> error + (DynamicArray \<times> event list)" where
  "construct f as out =
     (case deduce f (map typeOf as) of
        None \<Rightarrow> Inl IllFormed
      | Some T \<Rightarrow> if copy_ok T then initialize T f as out else Inl IllFormed)"

subsection \<open>Named arguments\<close>






subsection \<open>The five declarations of main\<close>

text \<open>
  Lines 83, 92, 109, 119 and 132, each started on an empty output. The three cells of
  line 119 are built left to right before the container.
\<close>

definition main_arr :: "error + (DynamicArray \<times> event list)" where
  "main_arr = construct Braced [IntV 0] []"

definition main_arr1 :: "error + (DynamicArray \<times> event list)" where
  "main_arr1 = construct Braced [DoubleV 10.0, DoubleV 1.3] []"

definition main_arr2 :: "error + (DynamicArray \<times> event list)" where
  "main_arr2 = construct Braced [IntV 10, DoubleV 1.3] []"

definition main_typedClassArr :: "error + (DynamicArray \<times> event list)" where
  "main_typedClassArr =
     (case TypedClass_param (DoubleV 10.34) [] of
        (c1, out1) \<Rightarrow>
          (case TypedClass_param (DoubleV 9.23) out1 of
             (c2, out2) \<Rightarrow>
               (case TypedClass_param (DoubleV 3.14) out2 of
                  (c3, out3) \<Rightarrow> construct Braced [CellV c1, CellV c2, CellV c3] out3)))"

definition main_typedDataArr :: "error + (DynamicArray \<times> event list)" where
  "main_typedDataArr = construct Paren [IntV 5, DoubleV 1.3] []"

subsection \<open>The events a copy produces\<close>

text \<open>
  The lines printed while a value is copy-constructed: none for a scalar, and for a
  \<open>TypedClass\<close> the lines of its member's copy followed by its own.
\<close>

fun copy_trace :: "cval \<Rightarrow> event list" where
  "copy_trace (CellV (TypedClass x)) = copy_trace x @ [CopyCtor (typeOf x) x]"
| "copy_trace v = []"

section \<open>typeChecks.cpp\<close>

text \<open>
  The types the function templates are instantiated with. For an argument bound to
  \<open>const T &\<close> a string literal of five characters gives \<open>T = char[6]\<close>.
\<close>

datatype tyarg = Int_t | Double_t | Float_t | Char_t | Array_t tyarg nat | Id_t tyarg

text \<open>
  \<open>compileTimeTypeCheck\<close> (lines 25 to 34): the \<open>if constexpr\<close> chain over
  \<open>std::is_same_v\<close>; the result is the list of lines written.
\<close>

definition compileTimeTypeCheck :: "tyarg \<Rightarrow> string list" where
  "compileTimeTypeCheck T =
     (if T = Int_t then [''Type at compile time is int'']
      else if T = Double_t then [''Type at compile time is double'']
      else if T = Id_t Float_t then [''Type at compile time is Id<float>'']
      else [''Type at compile time is something else''])"

text \<open>
  The dispatch as the specification words it: the handler of the case whose type equals
  \<open>T\<close>, the default handler when there is none. The result lists the handlers run.
\<close>

definition staticDispatch :: "(tyarg \<times> 'h) list \<Rightarrow> 'h \<Rightarrow> tyarg \<Rightarrow> 'h list" where
  "staticDispatch cases dflt T =
     (case map_of cases T of Some h \<Rightarrow> [h] | None \<Rightarrow> [dflt])"

text \<open>
  \<open>typeid(T).name()\<close> and \<open>abi::__cxa_demangle\<close> belong to the compiler's runtime: they
  are parameters, \<open>typeid_name\<close> giving the raw name of a type and \<open>cxa_demangle\<close>
  giving the readable name, or \<open>None\<close> for the null pointer it returns when it fails.
  The program hands that pointer to \<open>operator<<\<close> unchecked (lines 19 to 21, and lines
  23, 29 and 37 of CTAD.cpp); inserting a null \<open>char\<close> pointer breaks the inserter's
  precondition, which the model reports as the error \<open>NullCString\<close>.
\<close>

datatype stream_error = NullCString

definition checkType :: "('t \<Rightarrow> string) \<Rightarrow> 't \<Rightarrow> string list" where
  "checkType typeid_name T = [''Type: '' @ typeid_name T]"

definition checkTypeDem ::
  "('t \<Rightarrow> string) \<Rightarrow> (string \<Rightarrow> string option) \<Rightarrow> 't \<Rightarrow> stream_error + string list" where
  "checkTypeDem typeid_name cxa_demangle T =
     (case cxa_demangle (typeid_name T) of
        None \<Rightarrow> Inl NullCString
      | Some s \<Rightarrow> Inr [''Demangled Type: '' @ s])"

text \<open>The line of \<open>TypedClass(const T &x)\<close> (CTAD.cpp, lines 29 to 31) as text.\<close>

definition TypedClass_param_line ::
  "('t \<Rightarrow> string) \<Rightarrow> (string \<Rightarrow> string option) \<Rightarrow> 't \<Rightarrow> stream_error + string list" where
  "TypedClass_param_line typeid_name cxa_demangle T =
     (case cxa_demangle (typeid_name T) of
        None \<Rightarrow> Inl NullCString
      | Some s \<Rightarrow> Inr [''Parameterized constructor of TypedClass<'' @ s @ ''>''])"

section \<open>Properties of CTAD.cpp\<close>

subsection \<open>What the constructors compute\<close>

lemma copy_construct_eq: "copy_construct v out = (v, out @ copy_trace v)"
  by (induction v out rule: copy_construct.induct) simp_all

lemma vector_fill_eq:
  "vector_fill n v out = (replicate n v, out @ concat (replicate n (copy_trace v)))"
  by (induction n arbitrary: out) (simp_all add: copy_construct_eq)

lemma vector_copy_eq:
  "vector_copy xs out = (xs, out @ concat (map copy_trace xs))"
  by (induction xs arbitrary: out) (simp_all add: copy_construct_eq)

lemma copy_trace_scalar: "scalar (typeOf v) \<Longrightarrow> copy_trace v = []"
  by (cases v rule: typeOf.cases) simp_all

lemma scalar_not_cell: "scalar (typeOf v) \<Longrightarrow> \<not> is_cell v"
  by (cases v rule: typeOf.cases) simp_all

text \<open>A non-negative \<open>int\<close> count keeps its value as a \<open>size_t\<close>.\<close>

lemma count_to_size_t:
  "0 \<le> sint (n :: 32 word) \<Longrightarrow> unat (scast n :: 64 word) = nat (sint n)"
proof -
  assume h: "0 \<le> sint n"
  have "sint n < 2 ^ 31" using sint_lt [of n] by simp
  also have "(2::int) ^ 31 < 2 ^ 64" by (rule power_strict_increasing) simp_all
  finally have lt: "sint n < 2 ^ 64" .
  have "take_bit 64 (sint n) = sint n"
    using h lt by (rule take_bit_int_eq_self)
  moreover have "unat (scast n :: 64 word) = nat (take_bit 64 (sint n))"
    unfolding scast_eq unat_eq_nat_uint uint_word_of_int_eq by simp
  ultimately show ?thesis by (simp only:)
qed

lemma concat_replicate_single: "concat (replicate n [x]) = replicate n x"
  by (induction n) simp_all

lemma convert_to_same: "typeOf a = P \<Longrightarrow> convert_to P a out = Inr (a, out)"
  by (simp add: convert_to_def)

lemma convert_all_same:
  "list_all (\<lambda>a. typeOf a = P) as \<Longrightarrow> convert_all P as out = Inr (as, out)"
  by (induction as) (simp_all add: convert_to_same)

text \<open>
  \<open>DynamicArray x(n, v)\<close> with an \<open>int\<close> \<open>n\<close> and a scalar \<open>v\<close>: the guide makes the
  element type \<open>TypedClass<T>\<close>, the argument \<open>v\<close> is converted to one temporary cell,
  and the vector copies that cell \<open>n\<close> times.
\<close>

lemma construct_fill:
  assumes "0 \<le> sint n" and "scalar (typeOf v)"
  shows "construct Paren [IntV n, v] out =
    Inr (\<lparr>elemT = TTypedClass (typeOf v), arr = replicate (nat (sint n)) (CellV (TypedClass v))\<rparr>,
         out @ ParamCtor (typeOf v) # replicate (nat (sint n)) (CopyCtor (typeOf v) v))"
proof -
  have d: "deduce Paren [TInt, typeOf v] = Some (TTypedClass (typeOf v))"
    by (simp add: deduce_def)
  have c: "convert_to (TTypedClass (typeOf v)) v out =
      Inr (CellV (TypedClass v), out @ [ParamCtor (typeOf v)])"
    using assms(2)
    by (simp add: convert_to_def standard_conversion_def TypedClass_param_def
        copy_construct_eq copy_trace_scalar)
  have f: "DynamicArray_fill (TTypedClass (typeOf v)) (scast n) (CellV (TypedClass v))
       (out @ [ParamCtor (typeOf v)]) =
     (\<lparr>elemT = TTypedClass (typeOf v), arr = replicate (nat (sint n)) (CellV (TypedClass v))\<rparr>,
         out @ ParamCtor (typeOf v) # replicate (nat (sint n)) (CopyCtor (typeOf v) v))"
    using assms
    by (simp add: DynamicArray_fill_def vector_fill_eq count_to_size_t copy_trace_scalar
        concat_replicate_single)
  show ?thesis
    using assms(2) by (simp add: construct_def d initialize_def convertible_def c f)
qed

text \<open>
  \<open>DynamicArray x{n, d}\<close> with an \<open>int\<close> and a \<open>double\<close>: no single element type fits the
  list, so the guide deduces \<open>TypedClass<double>\<close>; both elements convert to it, so the
  initializer-list constructor is chosen.
\<close>

lemma construct_mixed:
  "construct Braced [IntV n, DoubleV d] out =
    Inr (\<lparr>elemT = TTypedClass TDouble,
          arr = [CellV (TypedClass (DoubleV (real_of_int (sint n)))), CellV (TypedClass (DoubleV d))]\<rparr>,
         out @ [ParamCtor TDouble, ParamCtor TDouble,
                CopyCtor TDouble (DoubleV (real_of_int (sint n))), CopyCtor TDouble (DoubleV d),
                UsedInitList (TTypedClass TDouble)])"
  by (simp add: construct_def deduce_def initialize_def convertible_def convert_to_def
      standard_conversion_def TypedClass_param_def DynamicArray_init_def)

text \<open>A non-empty braced list whose elements all have the copyable type \<open>T\<close>.\<close>

lemma construct_list:
  assumes "vs \<noteq> []" and "list_all (\<lambda>v. typeOf v = T) vs" and "copy_ok T"
  shows "construct Braced vs out =
    Inr (\<lparr>elemT = T, arr = vs\<rparr>, out @ concat (map copy_trace vs) @ [UsedInitList T])"
proof -
  obtain v ws where vs: "vs = v # ws" using assms(1) by (cases vs) auto
  have hd: "typeOf v = T" using assms(2) vs by simp
  have all: "list_all (\<lambda>t. t = T) (map typeOf vs)"
    using assms(2) by (simp add: list_all_iff)
  have d: "deduce Braced (map typeOf vs) = Some T"
    using all hd vs by (simp add: deduce_def)
  have conv: "list_all (\<lambda>a. convertible T (typeOf a)) vs"
    using assms(2) by (simp add: list_all_iff convertible_def)
  have i: "initialize T Braced vs out = Inr (DynamicArray_init T vs out)"
    using assms(1) conv by (simp add: initialize_def convert_all_same [OF assms(2)])
  show ?thesis
    using assms(3) by (simp add: construct_def d i DynamicArray_init_def vector_copy_eq)
qed

lemma copy_trace_cells:
  "list_all (\<lambda>c. typeOf (val c) = U) cs \<Longrightarrow> scalar U \<Longrightarrow>
   concat (map copy_trace (map CellV cs)) = map (\<lambda>c. CopyCtor U (val c)) cs"
proof (induction cs)
  case Nil
  show ?case by simp
next
  case (Cons c cs)
  obtain x where c: "c = TypedClass x" by (cases c)
  have "scalar (typeOf x)" using Cons.prems c by simp
  hence "copy_trace x = []" by (rule copy_trace_scalar)
  thus ?case using Cons c by simp
qed


lemma copy_trace_scalars:
  "list_all (\<lambda>v. typeOf v = T) vs \<Longrightarrow> scalar T \<Longrightarrow> concat (map copy_trace vs) = []"
  by (induction vs) (simp_all add: copy_trace_scalar)

lemma scalars_no_cell:
  "list_all (\<lambda>v. typeOf v = T) vs \<Longrightarrow> scalar T \<Longrightarrow> \<not> list_ex is_cell vs"
  by (induction vs) (auto simp: scalar_not_cell)

lemma DynamicArray_sz_scalar:
  "scalar T \<Longrightarrow>
   DynamicArray_sz T sz out =
     (\<lparr>elemT = T, arr = replicate (unat sz) (if T = TInt then IntV 0 else DoubleV 0)\<rparr>, out)"
  by (cases T) (simp_all add: DynamicArray_sz_def vector_fill_eq)

lemma getData_eq: "getData c out = (val c, out @ copy_trace (val c))"
  by (simp add: getData_def copy_construct_eq)

text \<open>A non-empty braced list of cells that all hold the scalar type \<open>U\<close>.\<close>

lemma construct_cells:
  assumes "cs \<noteq> []" and "scalar U" and "list_all (\<lambda>c. typeOf (val c) = U) cs"
  shows "construct Braced (map CellV cs) out =
    Inr (\<lparr>elemT = TTypedClass U, arr = map CellV cs\<rparr>,
         out @ map (\<lambda>c. CopyCtor U (val c)) cs @ [UsedInitList (TTypedClass U)])"
proof -
  have ty: "list_all (\<lambda>v. typeOf v = TTypedClass U) (map CellV cs)"
    using assms(3)
  proof (induction cs)
    case Nil
    show ?case by simp
  next
    case (Cons c cs)
    obtain x where "c = TypedClass x" by (cases c)
    thus ?case using Cons by simp
  qed
  have ne: "map CellV cs \<noteq> []" using assms(1) by simp
  have ok: "copy_ok (TTypedClass U)" using assms(2) by simp
  show ?thesis
    using construct_list [OF ne ty ok, of out] copy_trace_cells [OF assms(3) assms(2)]
    by simp
qed

text \<open>A non-empty braced list of scalars of one type \<open>T\<close>.\<close>

lemma construct_scalars:
  assumes "vs \<noteq> []" and "scalar T" and "list_all (\<lambda>v. typeOf v = T) vs"
  shows "construct Braced vs out = Inr (\<lparr>elemT = T, arr = vs\<rparr>, out @ [UsedInitList T])"
proof -
  have ok: "copy_ok T" using assms(2) by (cases T) simp_all
  show ?thesis
    using construct_list [OF assms(1) assms(3) ok, of out] copy_trace_scalars [OF assms(3) assms(2)]
    by simp
qed









subsection \<open>Named arguments and temporaries\<close>












subsection \<open>What main builds\<close>

lemma main_arr_eq:
  "main_arr = Inr (\<lparr>elemT = TInt, arr = [IntV 0]\<rparr>, [UsedInitList TInt])"
  using construct_scalars [of "[IntV 0]" TInt "[]"] by (simp add: main_arr_def)

lemma main_arr1_eq:
  "main_arr1 = Inr (\<lparr>elemT = TDouble, arr = [DoubleV 10.0, DoubleV 1.3]\<rparr>, [UsedInitList TDouble])"
  using construct_scalars [of "[DoubleV 10.0, DoubleV 1.3]" TDouble "[]"]
  by (simp add: main_arr1_def)

lemma main_typedClassArr_eq:
  "main_typedClassArr =
     Inr (\<lparr>elemT = TTypedClass TDouble,
           arr = [CellV (TypedClass (DoubleV 10.34)), CellV (TypedClass (DoubleV 9.23)),
                  CellV (TypedClass (DoubleV 3.14))]\<rparr>,
          [ParamCtor TDouble, ParamCtor TDouble, ParamCtor TDouble,
           CopyCtor TDouble (DoubleV 10.34), CopyCtor TDouble (DoubleV 9.23),
           CopyCtor TDouble (DoubleV 3.14), UsedInitList (TTypedClass TDouble)])"
  using construct_cells [of "[TypedClass (DoubleV 10.34), TypedClass (DoubleV 9.23),
      TypedClass (DoubleV 3.14)]" TDouble "[ParamCtor TDouble, ParamCtor TDouble, ParamCtor TDouble]"]
  by (simp add: main_typedClassArr_def TypedClass_param_def)

subsection \<open>The mixed braced list\<close>

text \<open>
  C1, as stated: the call \<open>{10, 1.3}\<close> yields two wrapped cells and exactly two trace
  events. On the code the declaration of line 109 yields the two cells but four cell
  events: each element is first built by the converting constructor, then copied into
  the vector (the comment of lines 105 to 107 says so).
\<close>

theorem braced_mixed_events_counterexample:
  "main_arr2 =
     Inr (\<lparr>elemT = TTypedClass TDouble,
           arr = [CellV (TypedClass (DoubleV 10)), CellV (TypedClass (DoubleV 1.3))]\<rparr>,
          [ParamCtor TDouble, ParamCtor TDouble, CopyCtor TDouble (DoubleV 10),
           CopyCtor TDouble (DoubleV 1.3), UsedInitList (TTypedClass TDouble)])
   \<and> length (cell_events [ParamCtor TDouble, ParamCtor TDouble, CopyCtor TDouble (DoubleV 10),
           CopyCtor TDouble (DoubleV 1.3), UsedInitList (TTypedClass TDouble)]) \<noteq> 2"
  by (simp add: main_arr2_def construct_mixed cell_events_def)

text \<open>
  C1, amended: for a braced list of one \<open>int\<close> and one \<open>double\<close> the
  initializer-list constructor is chosen, not the count-and-value constructor: the
  container has element type \<open>TypedClass<double>\<close> and exactly two elements, both
  cells, whatever the integer is; the trace gains exactly four cell events, two value
  constructions followed by two copies, all for \<open>TypedClass<double>\<close>; the
  initializer-list constructor's own line ends the output.
\<close>

theorem braced_mixed_list_path:
  "\<exists>D new. construct Braced [IntV n, DoubleV d] out = Inr (D, out @ new)
     \<and> elemT D = TTypedClass TDouble
     \<and> length (arr D) = 2
     \<and> list_all is_cell (arr D)
     \<and> map kind_of (cell_events new) = [Some ValueInit, Some ValueInit, Some Copy, Some Copy]
     \<and> list_all (\<lambda>e. type_tag e = TTypedClass TDouble) new
     \<and> last new = UsedInitList (TTypedClass TDouble)"
  by (simp add: construct_mixed cell_events_def)

text \<open>
  C10: in \<open>{10, 1.3}\<close> the integer is converted to \<open>double\<close> and stored: the first cell
  holds 10.0, the second 1.3, and for any integer \<open>n\<close> the container has the two
  elements \<open>n\<close> (as a \<open>double\<close>) and \<open>d\<close>; \<open>getData\<close> on the first cell returns 10.0.
\<close>

theorem braced_mixed_int_is_data:
  "(\<exists>out'. construct Braced [IntV n, DoubleV d] out =
      Inr (\<lparr>elemT = TTypedClass TDouble,
            arr = [CellV (TypedClass (DoubleV (real_of_int (sint n)))),
                   CellV (TypedClass (DoubleV d))]\<rparr>, out'))
   \<and> (\<exists>out'. main_arr2 =
      Inr (\<lparr>elemT = TTypedClass TDouble,
            arr = [CellV (TypedClass (DoubleV 10)), CellV (TypedClass (DoubleV 1.3))]\<rparr>, out'))
   \<and> getData (TypedClass (DoubleV 10)) out = (DoubleV 10, out)"
  by (simp add: main_arr2_def construct_mixed getData_def)

subsection \<open>Count and value in parentheses\<close>

text \<open>
  C2, as stated: \<open>(n, v)\<close> produces \<open>2n\<close> trace events, a value construction and a copy
  per element. On the code the declaration of line 132, with \<open>n = 5\<close>, produces six: one
  value construction for the temporary, then five copies.
\<close>

theorem paren_fill_events_counterexample:
  "main_typedDataArr =
     Inr (\<lparr>elemT = TTypedClass TDouble, arr = replicate 5 (CellV (TypedClass (DoubleV 1.3)))\<rparr>,
          ParamCtor TDouble # replicate 5 (CopyCtor TDouble (DoubleV 1.3)))
   \<and> map kind_of (cell_events (ParamCtor TDouble # replicate 5 (CopyCtor TDouble (DoubleV 1.3))))
       = [Some ValueInit, Some Copy, Some Copy, Some Copy, Some Copy, Some Copy]
   \<and> length (cell_events (ParamCtor TDouble # replicate 5 (CopyCtor TDouble (DoubleV 1.3))))
       \<noteq> 2 * 5"
  using construct_fill [of 5 "DoubleV 1.3" "[]"]
  by (simp add: main_typedDataArr_def cell_events_def numeral_eq_Suc)

text \<open>
  C2, amended: for every count \<open>n \<ge> 0\<close> and scalar \<open>v\<close> of type \<open>T\<close>, \<open>(n, v)\<close> yields a
  container of \<open>TypedClass<T>\<close> of length \<open>n\<close> whose every element is a cell holding \<open>v\<close>,
  and produces exactly \<open>n + 1\<close> trace events: one value construction (of the temporary
  cell) followed by \<open>n\<close> copies.
\<close>

theorem paren_fill:
  assumes "0 \<le> sint n" and "scalar (typeOf v)"
  shows "\<exists>D new. construct Paren [IntV n, v] out = Inr (D, out @ new)
     \<and> elemT D = TTypedClass (typeOf v)
     \<and> length (arr D) = nat (sint n)
     \<and> list_all (\<lambda>c. c = CellV (TypedClass v)) (arr D)
     \<and> new = ParamCtor (typeOf v) # replicate (nat (sint n)) (CopyCtor (typeOf v) v)
     \<and> map kind_of (cell_events new) = Some ValueInit # replicate (nat (sint n)) (Some Copy)
     \<and> length (cell_events new) = nat (sint n) + 1"
  using construct_fill [OF assms, of out]
  by (simp add: cell_events_def list_all_iff)

text \<open>C2, amended, at \<open>(5, 1.3)\<close>: five cells holding 1.3 and six events.\<close>

theorem paren_fill_witness:
  "0 \<le> sint (5 :: 32 word) \<and> scalar (typeOf (DoubleV 1.3))
   \<and> (\<exists>D new. construct Paren [IntV 5, DoubleV 1.3] [] = Inr (D, [] @ new)
     \<and> elemT D = TTypedClass TDouble
     \<and> length (arr D) = 5
     \<and> list_all (\<lambda>c. c = CellV (TypedClass (DoubleV 1.3))) (arr D)
     \<and> new = ParamCtor TDouble # replicate 5 (CopyCtor TDouble (DoubleV 1.3))
     \<and> length (cell_events new) = 6)"
  using paren_fill [of 5 "DoubleV 1.3" "[]"] by auto

subsection \<open>Count only\<close>

text \<open>
  C4: for a scalar type \<open>T\<close> and every count, \<open>DynamicArray<T>(n)\<close> has length \<open>n\<close>, every
  element is \<open>T\<close>'s value-initialised (zero) value, and the output is unchanged.
\<close>

theorem count_only:
  assumes "scalar T"
  shows "\<exists>D. DynamicArray_sz T sz out = (D, out)
     \<and> elemT D = T
     \<and> length (arr D) = unat sz
     \<and> list_all (\<lambda>x. x = fst (value_init T [])) (arr D)
     \<and> list_all (\<lambda>x. x = (if T = TInt then IntV 0 else DoubleV 0)) (arr D)"
  using assms by (cases T) (simp_all add: DynamicArray_sz_scalar list_all_iff)

text \<open>C4 at \<open>DynamicArray<int>(3)\<close>: three zeros, nothing printed.\<close>

theorem count_only_witness:
  "scalar TInt \<and> (\<exists>D. DynamicArray_sz TInt 3 [] = (D, [])
     \<and> elemT D = TInt \<and> length (arr D) = 3 \<and> list_all (\<lambda>x. x = IntV 0) (arr D))"
  using count_only [of TInt 3 "[]"] by simp

subsection \<open>Every construction path and the trace\<close>




subsection \<open>Braced lists of one type\<close>

text \<open>
  C5: a braced list of \<open>k \<ge> 1\<close> scalars of one type \<open>T\<close> yields a container of element
  type \<open>T\<close> holding exactly those \<open>k\<close> values, none of them a cell, and no cell
  construction is traced (the only line printed is the initializer-list constructor's
  own). The initializer-list constructor on the empty list gives the empty container.
\<close>

theorem braced_scalars:
  assumes "vs \<noteq> []" and "scalar T" and "list_all (\<lambda>v. typeOf v = T) vs"
  shows "(\<exists>D new. construct Braced vs out = Inr (D, out @ new)
           \<and> elemT D = T
           \<and> arr D = vs
           \<and> length (arr D) = length vs
           \<and> \<not> list_ex is_cell (arr D)
           \<and> cell_events new = [])
         \<and> DynamicArray_init T [] out = (\<lparr>elemT = T, arr = []\<rparr>, out @ [UsedInitList T])"
  using construct_scalars [OF assms, of out] scalars_no_cell [OF assms(3) assms(2)]
  by (simp add: cell_events_def DynamicArray_init_def)

text \<open>C5 at \<open>{10.0, 1.3}\<close>, the declaration of line 92.\<close>

theorem braced_scalars_witness:
  "[DoubleV 10.0, DoubleV 1.3] \<noteq> [] \<and> scalar TDouble
   \<and> list_all (\<lambda>v. typeOf v = TDouble) [DoubleV 10.0, DoubleV 1.3]
   \<and> (\<exists>D new. construct Braced [DoubleV 10.0, DoubleV 1.3] [] = Inr (D, [] @ new)
           \<and> elemT D = TDouble
           \<and> arr D = [DoubleV 10.0, DoubleV 1.3]
           \<and> length (arr D) = 2
           \<and> \<not> list_ex is_cell (arr D)
           \<and> cell_events new = [])"
  using braced_scalars [of "[DoubleV 10.0, DoubleV 1.3]" TDouble "[]"] by auto

text \<open>
  C6: a braced list of \<open>k \<ge> 1\<close> cells \<open>c1, ..., ck\<close> of one type \<open>TypedClass<U>\<close> yields
  a container of element type \<open>TypedClass<U>\<close>, not \<open>TypedClass<TypedClass<U>>\<close>, with \<open>k\<close>
  cells whose \<open>getData\<close> results are those of \<open>c1, ..., ck\<close>, in order.
\<close>

theorem braced_cells:
  assumes "cs \<noteq> []" and "scalar U" and "list_all (\<lambda>c. typeOf (val c) = U) cs"
  shows "\<exists>D out' cs'. construct Braced (map CellV cs) out = Inr (D, out')
           \<and> elemT D = TTypedClass U
           \<and> elemT D \<noteq> TTypedClass (TTypedClass U)
           \<and> arr D = map CellV cs'
           \<and> length cs' = length cs
           \<and> map (\<lambda>c. fst (getData c o1)) cs' = map (\<lambda>c. fst (getData c o2)) cs"
proof -
  let ?D = "\<lparr>elemT = TTypedClass U, arr = map CellV cs\<rparr>"
  let ?out = "out @ map (\<lambda>c. CopyCtor U (val c)) cs @ [UsedInitList (TTypedClass U)]"
  have "construct Braced (map CellV cs) out = Inr (?D, ?out)"
    by (rule construct_cells [OF assms])
  moreover have "map (\<lambda>c. fst (getData c o1)) cs = map (\<lambda>c. fst (getData c o2)) cs"
    by (simp add: getData_eq)
  ultimately show ?thesis
    by (intro exI [of _ ?D] exI [of _ ?out] exI [of _ cs]) simp
qed

text \<open>C6 at the three cells of line 119, after their own three value constructions.\<close>

theorem braced_cells_witness:
  "[TypedClass (DoubleV 10.34), TypedClass (DoubleV 9.23), TypedClass (DoubleV 3.14)] \<noteq> []
   \<and> scalar TDouble
   \<and> list_all (\<lambda>c. typeOf (val c) = TDouble)
       [TypedClass (DoubleV 10.34), TypedClass (DoubleV 9.23), TypedClass (DoubleV 3.14)]
   \<and> (\<exists>D out' cs'. construct Braced
          (map CellV [TypedClass (DoubleV 10.34), TypedClass (DoubleV 9.23), TypedClass (DoubleV 3.14)])
          [ParamCtor TDouble, ParamCtor TDouble, ParamCtor TDouble] = Inr (D, out')
        \<and> elemT D = TTypedClass TDouble
        \<and> elemT D \<noteq> TTypedClass (TTypedClass TDouble)
        \<and> arr D = map CellV cs'
        \<and> length cs' = length [DoubleV 10.34, DoubleV 9.23, DoubleV 3.14]
        \<and> map (\<lambda>c. fst (getData c [])) cs' = [DoubleV 10.34, DoubleV 9.23, DoubleV 3.14])"
  using braced_cells [of "[TypedClass (DoubleV 10.34), TypedClass (DoubleV 9.23), TypedClass (DoubleV 3.14)]"
      TDouble "[ParamCtor TDouble, ParamCtor TDouble, ParamCtor TDouble]" "[]" "[]"]
  by (simp add: getData_eq)

subsection \<open>The cell\<close>

text \<open>
  C9: a cell value-constructed from \<open>x\<close> returns \<open>x\<close> from \<open>getData\<close>; a copy of a cell
  returns what the original returns; \<open>getData\<close> returns the held value, the same at
  every call, the cell being its unchanged argument.
\<close>

theorem cell_round_trip:
  "fst (getData (fst (TypedClass_param x out)) out1) = x
   \<and> fst (getData (fst (TypedClass_copy c out)) out1) = fst (getData c out2)
   \<and> fst (getData c out1) = val c
   \<and> fst (getData c out1) = fst (getData c out2)"
  by (simp add: getData_eq TypedClass_param_def TypedClass_copy_def copy_construct_eq)

section \<open>Properties of typeChecks.cpp\<close>

text \<open>
  C7: \<open>compileTimeTypeCheck\<close> is the dispatch over the cases \<open>int\<close>, \<open>double\<close> and
  \<open>Id<float>\<close> with a default: for every \<open>T\<close> exactly one line is written, a case's line
  exactly when \<open>T\<close> is that case's type, and the default's exactly when \<open>T\<close> is none of
  the three.
\<close>

theorem static_dispatch:
  "compileTimeTypeCheck T =
     staticDispatch
       [(Int_t, ''Type at compile time is int''),
        (Double_t, ''Type at compile time is double''),
        (Id_t Float_t, ''Type at compile time is Id<float>'')]
       ''Type at compile time is something else'' T
   \<and> length (compileTimeTypeCheck T) = 1
   \<and> (compileTimeTypeCheck T = [''Type at compile time is int''] \<longleftrightarrow> T = Int_t)
   \<and> (compileTimeTypeCheck T = [''Type at compile time is double''] \<longleftrightarrow> T = Double_t)
   \<and> (compileTimeTypeCheck T = [''Type at compile time is Id<float>''] \<longleftrightarrow> T = Id_t Float_t)
   \<and> (compileTimeTypeCheck T = [''Type at compile time is something else'']
        \<longleftrightarrow> T \<noteq> Int_t \<and> T \<noteq> Double_t \<and> T \<noteq> Id_t Float_t)"
  by (simp add: compileTimeTypeCheck_def staticDispatch_def)

text \<open>
  C7 at the calls of lines 53 to 57 and at \<open>float\<close>: \<open>Id<double>\<close>, \<open>char[6]\<close> and
  \<open>float\<close> reach the default, nothing converts them to a registered case.
\<close>

theorem static_dispatch_witness:
  "compileTimeTypeCheck (Id_t Double_t) = [''Type at compile time is something else'']
   \<and> compileTimeTypeCheck (Array_t Char_t 6) = [''Type at compile time is something else'']
   \<and> compileTimeTypeCheck Float_t = [''Type at compile time is something else'']
   \<and> compileTimeTypeCheck (Id_t Float_t) = [''Type at compile time is Id<float>'']
   \<and> compileTimeTypeCheck Int_t = [''Type at compile time is int'']
   \<and> compileTimeTypeCheck Double_t = [''Type at compile time is double'']"
  using static_dispatch [of "Id_t Double_t"] static_dispatch [of "Array_t Char_t 6"]
    static_dispatch [of Float_t] static_dispatch [of "Id_t Float_t"]
    static_dispatch [of Int_t] static_dispatch [of Double_t]
  by (simp add: staticDispatch_def)

text \<open>
  C8, as stated: when demangling is unavailable the raw name is used instead. On the code,
  with a demangler that fails, \<open>checkTypeDem\<close> for \<open>int\<close> (raw name \<open>i\<close>) does not print
  the raw name: the null result goes to the stream. The constructors of \<open>TypedClass\<close> do
  the same.
\<close>

theorem demangle_fallback_counterexample:
  "checkTypeDem (\<lambda>T. ''i'') (\<lambda>m. None) Int_t = Inl NullCString
   \<and> checkTypeDem (\<lambda>T. ''i'') (\<lambda>m. None) Int_t \<noteq> Inr [''Demangled Type: i'']
   \<and> TypedClass_param_line (\<lambda>T. ''d'') (\<lambda>m. None) TDouble = Inl NullCString"
  by (simp add: checkTypeDem_def TypedClass_param_line_def)

text \<open>
  C8, amended: for every type, when demangling succeeds the readable name is what is
  printed; when it is unavailable nothing replaces it: the result of
  \<open>abi::__cxa_demangle\<close> is passed to the stream unchecked, with no raw-name fallback and
  no diagnostic.
\<close>

theorem demangle_result:
  "(cxa_demangle (typeid_name T) = Some s \<longrightarrow>
      checkTypeDem typeid_name cxa_demangle T = Inr [''Demangled Type: '' @ s]
      \<and> TypedClass_param_line typeid_name cxa_demangle T
          = Inr [''Parameterized constructor of TypedClass<'' @ s @ ''>''])
   \<and> (cxa_demangle (typeid_name T) = None \<longrightarrow>
      checkTypeDem typeid_name cxa_demangle T = Inl NullCString
      \<and> TypedClass_param_line typeid_name cxa_demangle T = Inl NullCString)"
  by (simp add: checkTypeDem_def TypedClass_param_line_def)

text \<open>C8, amended, at \<open>int\<close> with a demangler that answers \<open>int\<close> and with one that fails.\<close>

theorem demangle_result_witness:
  "checkTypeDem (\<lambda>T. ''i'') (\<lambda>m. Some ''int'') Int_t = Inr [''Demangled Type: int'']
   \<and> TypedClass_param_line (\<lambda>T. ''i'') (\<lambda>m. Some ''int'') Int_t
        = Inr [''Parameterized constructor of TypedClass<int>'']
   \<and> checkTypeDem (\<lambda>T. ''i'') (\<lambda>m. None) Int_t = Inl NullCString
   \<and> TypedClass_param_line (\<lambda>T. ''i'') (\<lambda>m. None) Int_t = Inl NullCString"
  using demangle_result [of "\<lambda>m. Some ''int''" "\<lambda>T. ''i''" Int_t "''int''"]
    demangle_result [of "\<lambda>m. None" "\<lambda>T. ''i''" Int_t "''int''"]
  by simp

end
